theory Spec2Isabelle
  imports Main "HOL-Library.Multiset"
begin

section \<open>Data model of the health check reports\<close>

text \<open>
  The validators (\<^verbatim>\<open>validators/all_validators.py\<close>) build every report as a Python
  dict \<^verbatim>\<open>{"ResourceType": str, "DetailedHealthCheck": [item, ...]}\<close> whose items are
  dicts \<^verbatim>\<open>{"ResourceName": str, "status": int, "message": str}\<close>. The consumers in
  \<^verbatim>\<open>core/multithreading.py\<close> and \<^verbatim>\<open>core/reporting.py\<close> read every key with
  \<^verbatim>\<open>dict.get\<close> and a default, so each key may be missing: a field is an option, and
  \<open>None\<close> is the missing key. Python integers are unbounded and are modelled by \<open>int\<close>;
  Python strings are modelled by \<open>string\<close>, one \<open>char\<close> per code point, which covers the
  code points below 256.
\<close>

record health_check =
  ResourceName :: "string option"
  status :: "int option"
  message :: "string option"

record resource_type_report =
  ResourceType :: "string option"
  DetailedHealthCheck :: "health_check list option"

text \<open>\<^verbatim>\<open>d.get(key, default)\<close> on an optional field.\<close>

definition dict_get :: "'a option \<Rightarrow> 'a \<Rightarrow> 'a" where
  "dict_get field dflt = (case field of None \<Rightarrow> dflt | Some v \<Rightarrow> v)"

text \<open>The dataclass \<^verbatim>\<open>HealthCheckInput\<close> of \<^verbatim>\<open>models/health_models.py\<close>.\<close>

record HealthCheckInput =
  cc_version :: string
  cc_name :: string
  sku :: string
  connect_instance_arn :: string
  execution_id :: "string option"
  region :: "string option"
  connect_instance_id :: "string option"
  account_id :: "string option"
  partition :: "string option"
  lambda_prefix :: "string option"
  call_center_api_name :: "string option"
  s3_bucket_for_tenant_resources :: "string option"
  s3_bucket_for_reports :: "string option"
  include_detailed_errors :: bool
  max_threads :: int

section \<open>Strings\<close>

text \<open>
  \<^verbatim>\<open>s.startswith(p)\<close>, \<^verbatim>\<open>p in s\<close> and \<^verbatim>\<open>s.replace(old, new)\<close> of Python's \<^verbatim>\<open>str\<close>.
  \<^verbatim>\<open>replace\<close> scans from the left and replaces non-overlapping occurrences; with an
  empty \<^verbatim>\<open>old\<close> it inserts \<^verbatim>\<open>new\<close> before every character and at the end.
\<close>

definition startswith :: "string \<Rightarrow> string \<Rightarrow> bool" where
  "startswith s p = (take (length p) s = p)"

fun contains :: "string \<Rightarrow> string \<Rightarrow> bool" where
  "contains p [] = (p = [])"
| "contains p (c # cs) = (startswith (c # cs) p \<or> contains p cs)"

function str_replace :: "string \<Rightarrow> string \<Rightarrow> string \<Rightarrow> string" where
  "str_replace old new s =
     (if old = [] then new @ concat (map (\<lambda>c. c # new) s)
      else if s = [] then []
      else if startswith s old then new @ str_replace old new (drop (length old) s)
      else hd s # str_replace old new (tl s))"
  by pat_completeness auto
termination
  by (relation "measure (\<lambda>(old, new, s). length s)") (auto simp: startswith_def)

declare str_replace.simps [simp del]

text \<open>\<^verbatim>\<open>sep.join(lines)\<close>.\<close>

fun join :: "string \<Rightarrow> string list \<Rightarrow> string" where
  "join sep [] = []"
| "join sep [l] = l"
| "join sep (l # ls) = l @ sep @ join sep ls"

section \<open>Report aggregation: \<^verbatim>\<open>core/reporting.py\<close>\<close>

text \<open>
  The four counters of \<^verbatim>\<open>generate_enhanced_report\<close>, updated by the two nested
  \<^verbatim>\<open>for\<close> loops.
\<close>

record counters =
  total_resources :: int
  healthy_resources :: int
  unhealthy_resources :: int
  warning_resources :: int

definition count_health_check :: "health_check \<Rightarrow> counters \<Rightarrow> counters" where
  "count_health_check hc c =
     (let st = dict_get (status hc) 500 in
      if st = 200 then c\<lparr>healthy_resources := healthy_resources c + 1\<rparr>
      else if st \<ge> 400 then c\<lparr>unhealthy_resources := unhealthy_resources c + 1\<rparr>
      else c\<lparr>warning_resources := warning_resources c + 1\<rparr>)"

definition count_report :: "resource_type_report \<Rightarrow> counters \<Rightarrow> counters" where
  "count_report report c =
     (let health_checks = dict_get (DetailedHealthCheck report) [] in
      fold count_health_check health_checks
        (c\<lparr>total_resources := total_resources c + int (length health_checks)\<rparr>))"

definition summary_statistics :: "resource_type_report list \<Rightarrow> counters" where
  "summary_statistics full_report =
     fold count_report full_report
       \<lparr>total_resources = 0, healthy_resources = 0,
        unhealthy_resources = 0, warning_resources = 0\<rparr>"

definition determine_overall_status :: "counters \<Rightarrow> string list \<Rightarrow> string" where
  "determine_overall_status c errs =
     (if unhealthy_resources c > 0 then ''UNHEALTHY''
      else if warning_resources c > 0 \<or> errs \<noteq> [] then ''WARNING''
      else ''HEALTHY'')"

text \<open>
  What \<^verbatim>\<open>generate_enhanced_report\<close> reads from outside its arguments: the clock
  (\<^verbatim>\<open>datetime.datetime.now(datetime.timezone.utc).isoformat()\<close>) and the process
  environment (\<^verbatim>\<open>is_debug_enabled()\<close> looks at \<^verbatim>\<open>LOG_LEVEL\<close> and
  \<^verbatim>\<open>_LAMBDA_TELEMETRY_LOG_LEVEL\<close>). Both are made an explicit argument.
\<close>

record report_env =
  utc_now_isoformat :: string
  is_debug_enabled :: bool

text \<open>
  The dict returned by \<^verbatim>\<open>generate_enhanced_report\<close>. \<^verbatim>\<open>execution_time_ms\<close> is a
  float that is only passed through, so its type is a parameter; the key is present only
  when debug logging is enabled.
\<close>

record 'f execution_metadata =
  meta_execution_id :: string
  meta_timestamp :: string
  meta_version :: string
  meta_execution_time_ms :: "'f option"

record input_parameters =
  in_cc_version :: string
  in_cc_name :: string
  in_sku :: string
  in_execution_id :: "string option"
  in_connect_instance_arn :: string
  in_region :: "string option"
  in_max_threads :: int

record summary =
  overall_status :: string
  sum_total_resources :: int
  healthy :: int
  unhealthy :: int
  warnings :: int
  error_count :: int

record 'f enhanced_report =
  execution_metadata :: "'f execution_metadata"
  report_input_parameters :: input_parameters
  report_summary :: summary
  detailed_results :: "resource_type_report list"
  report_errors :: "string list"

definition generate_enhanced_report ::
  "report_env \<Rightarrow> HealthCheckInput \<Rightarrow> resource_type_report list \<Rightarrow> string \<Rightarrow> 'f \<Rightarrow>
   string list \<Rightarrow> 'f enhanced_report" where
  "generate_enhanced_report env health_input full_report exec_id execution_time_ms errs =
     (let c = summary_statistics full_report;
          status_str = determine_overall_status c errs
      in \<lparr>execution_metadata =
            \<lparr>meta_execution_id = exec_id,
             meta_timestamp = utc_now_isoformat env,
             meta_version = ''refactored_v1.0'',
             meta_execution_time_ms =
               (if is_debug_enabled env then Some execution_time_ms else None)\<rparr>,
          report_input_parameters =
            \<lparr>in_cc_version = cc_version health_input,
             in_cc_name = cc_name health_input,
             in_sku = sku health_input,
             in_execution_id = execution_id health_input,
             in_connect_instance_arn = connect_instance_arn health_input,
             in_region = region health_input,
             in_max_threads = max_threads health_input\<rparr>,
          report_summary =
            \<lparr>overall_status = status_str,
             sum_total_resources = total_resources c,
             healthy = healthy_resources c,
             unhealthy = unhealthy_resources c,
             warnings = warning_resources c,
             error_count = int (length errs)\<rparr>,
          detailed_results = full_report,
          report_errors = errs\<rparr>)"

text \<open>
  \<^verbatim>\<open>generate_csv_report(report)\<close> reads one key of its argument,
  \<^verbatim>\<open>report.get("detailed_results", [])\<close>; the argument is modelled by the optional
  value under that key.
\<close>

definition csv_row :: "string \<Rightarrow> health_check \<Rightarrow> string" where
  "csv_row resource_type hc =
     (let resource_name = dict_get (ResourceName hc) ''Unknown'';
          status_str = (if status hc = Some 200 then ''HEALTHY'' else ''UNHEALTHY'');
          msg = str_replace [CHR 0x22] [CHR 0x22, CHR 0x22] (dict_get (message hc) [])
      in [CHR 0x22] @ resource_name @ [CHR 0x22] @ '','' @
         [CHR 0x22] @ resource_type @ [CHR 0x22] @ '','' @
         [CHR 0x22] @ status_str @ [CHR 0x22] @ '','' @
         [CHR 0x22] @ msg @ [CHR 0x22])"

definition csv_rows_of_report :: "resource_type_report \<Rightarrow> string list" where
  "csv_rows_of_report resource_type_report =
     (let resource_type = dict_get (ResourceType resource_type_report) ''Unknown'';
          health_checks = dict_get (DetailedHealthCheck resource_type_report) []
      in map (csv_row resource_type) health_checks)"

definition generate_csv_report :: "resource_type_report list option \<Rightarrow> string" where
  "generate_csv_report report_detailed_results =
     join [CHR 0x0A]
       (fold (\<lambda>r lines. lines @ csv_rows_of_report r)
          (dict_get report_detailed_results [])
          [''ResourceName,ResourceType,Status,Message''])"

section \<open>Parallel validation: \<^verbatim>\<open>core/multithreading.py\<close>\<close>

text \<open>
  Each validation task is a closure that calls one validator of
  \<^verbatim>\<open>validators/all_validators.py\<close>, an external collaborator: invoked, it returns a
  report or raises, and \<^verbatim>\<open>future.result()\<close> hands that outcome to the collecting
  loop. An outcome is therefore a value; the exception is represented by \<^verbatim>\<open>str(e)\<close>,
  the only thing the loop reads from it.
\<close>

datatype task_outcome = Returns resource_type_report | Raises string

text \<open>
  \<^verbatim>\<open>ThreadPoolExecutor(max_workers=n)\<close> raises \<^verbatim>\<open>ValueError\<close> for \<open>n \<le> 0\<close>,
  before any task is submitted.
\<close>

datatype py_error = ValueError string | re_error string | IndexError string

record 'cfg MultiThreadedValidator =
  health_input :: HealthCheckInput
  config :: 'cfg
  results :: "resource_type_report list"
  errors :: "string list"
  warnings :: "string list"


text \<open>
  The body of the \<^verbatim>\<open>for future in as_completed(...)\<close> loop. \<^verbatim>\<open>as_completed\<close> yields
  every submitted future once, in the order the tasks finish; that order is the
  scheduler's choice and is an argument of the model. The logging calls have no effect on
  the result and are left out. On a report of the shape above no statement that follows
  \<^verbatim>\<open>full_report.append(result)\<close> inside the \<^verbatim>\<open>try\<close> block can raise, so the
  \<^verbatim>\<open>except\<close> branch is entered only by an exception of the task itself.
\<close>

definition track_errors :: "health_check list \<Rightarrow> string list \<Rightarrow> string list" where
  "track_errors health_checks errs =
     fold (\<lambda>hc acc.
             if status hc \<noteq> Some 200
             then acc @ [dict_get (ResourceName hc) ''Unknown'' @ '': '' @
                         dict_get (message hc) ''Unknown error'']
             else acc)
       health_checks errs"

definition failed_validation_result :: "string \<Rightarrow> string \<Rightarrow> resource_type_report" where
  "failed_validation_result task_name error_msg =
     \<lparr>ResourceType = Some (''Failed '' @ task_name),
      DetailedHealthCheck =
        Some [\<lparr>ResourceName = Some task_name, status = Some 500,
                message = Some error_msg\<rparr>]\<rparr>"

fun collect_result ::
  "string \<times> task_outcome \<Rightarrow> resource_type_report list \<times> string list \<Rightarrow>
   resource_type_report list \<times> string list" where
  "collect_result (task_name, Returns result) (full_report, errs) =
     (full_report @ [result],
      track_errors (dict_get (DetailedHealthCheck result) []) errs)"
| "collect_result (task_name, Raises e) (full_report, errs) =
     (let error_msg = ''Failed to validate '' @ task_name @ '': '' @ e
      in (full_report @ [failed_validation_result task_name error_msg],
          errs @ [error_msg]))"

definition execute_validations ::
  "((string \<times> task_outcome) list \<Rightarrow> (string \<times> task_outcome) list) \<Rightarrow>
   'cfg MultiThreadedValidator \<Rightarrow> (string \<times> task_outcome) list \<Rightarrow>
   py_error + (resource_type_report list \<times> 'cfg MultiThreadedValidator)" where
  "execute_validations as_completed self validation_tasks =
     (if max_threads (health_input self) \<le> 0
      then Inl (ValueError ''max_workers must be greater than 0'')
      else (case fold collect_result (as_completed validation_tasks) ([], errors self) of
              (full_report, errs) \<Rightarrow> Inr (full_report, self\<lparr>errors := errs\<rparr>)))"

definition validation_task_names :: "string list" where
  "validation_task_names =
     [''roles'', ''lambdas'', ''layers'', ''policies'', ''alarms'', ''s3'', ''kinesis'',
      ''kms_aliases'', ''triggers'', ''event_mappings'', ''lambda_permissions'']"

definition validate_all_resources_parallel ::
  "((string \<times> task_outcome) list \<Rightarrow> (string \<times> task_outcome) list) \<Rightarrow>
   (string \<Rightarrow> task_outcome) \<Rightarrow> 'cfg MultiThreadedValidator \<Rightarrow>
   py_error + (resource_type_report list \<times> 'cfg MultiThreadedValidator)" where
  "validate_all_resources_parallel as_completed validators self =
     execute_validations as_completed self
       (map (\<lambda>task_name. (task_name, validators task_name)) validation_task_names)"

section \<open>Placeholder resolution: \<^verbatim>\<open>utils/placeholder_utils.py\<close>\<close>

subsection \<open>Context, errors and the outside world\<close>

text \<open>
  The substitution context is a \<^verbatim>\<open>Dict[str, str]\<close>. A value that is looked up with
  \<^verbatim>\<open>replacements.get(k)\<close> is an option; Python's \<^verbatim>\<open>a or b\<close> on two such values takes
  \<open>a\<close> when it is a non-empty string and \<open>b\<close> otherwise.
\<close>

type_synonym replacements = "string \<Rightarrow> string option"

definition truthy :: "string option \<Rightarrow> bool" where
  "truthy v = (case v of None \<Rightarrow> False | Some s \<Rightarrow> s \<noteq> [])"

definition py_or :: "string option \<Rightarrow> string option \<Rightarrow> string option" where
  "py_or a b = (if truthy a then a else b)"

text \<open>
  The test \<^verbatim>\<open>lambda_prefix and lambda_prefix not in ["LambdaPrefix", "lambdaPrefix", ""]\<close>,
  returning the prefix when it passes.
\<close>

definition usable_prefix :: "string option \<Rightarrow> string option" where
  "usable_prefix prefix_value =
     (case prefix_value of
        None \<Rightarrow> None
      | Some p \<Rightarrow> if p \<noteq> [] \<and> p \<notin> set [''LambdaPrefix'', ''lambdaPrefix'', []]
                  then Some p else None)"

text \<open>
  Two things reach the resolver from outside its arguments, and both are arguments of
  the model.
  \<^item> \<^verbatim>\<open>discover_connect_streams(connect_instance_id, region)\<close> of
    \<^verbatim>\<open>utils/stream_discovery.py\<close> asks the Amazon Connect service over the network for
    the Kinesis stream ARNs of the instance; it returns a dict with the keys
    \<^verbatim>\<open>ctr_stream_arn\<close> and \<^verbatim>\<open>contact_lens_stream_arn\<close> (each a string or
    \<^verbatim>\<open>None\<close>), and the caller catches whatever it raises.
  \<^item> \<^verbatim>\<open>Pattern.sub(repl, text)\<close> with a string \<^verbatim>\<open>repl\<close> treats it as a replacement
    template. A template without a backslash stands for itself. A template with a
    backslash is parsed by the \<^verbatim>\<open>re\<close> library before any match is looked for: the parse
    raises on an unknown escape or group reference and otherwise expands escapes and
    references to group 0, by rules that differ between Python versions. That
    expansion, given the template and the matched text, is the second argument.
\<close>

record discovered_streams =
  ctr_stream_arn :: "string option"
  contact_lens_stream_arn :: "string option"

record resolver_env =
  discover_connect_streams ::
    "string \<Rightarrow> string option \<Rightarrow> py_error + discovered_streams"
  re_expand_template :: "string \<Rightarrow> string \<Rightarrow> py_error + string"

definition then_do :: "'e + 'a \<Rightarrow> ('a \<Rightarrow> 'e + 'b) \<Rightarrow> 'e + 'b" where
  "then_do r f = (case r of Inl e \<Rightarrow> Inl e | Inr v \<Rightarrow> f v)"

subsection \<open>The two regular expressions\<close>

text \<open>
  \<^verbatim>\<open>PLACEHOLDER_RE = \$\{([^}]+)\}\<close>. At a position the pattern matches exactly
  when the text there starts with \<^verbatim>\<open>${\<close>, at least one character other than
  \<^verbatim>\<open>}\<close> follows, and the run of such characters is ended by a \<^verbatim>\<open>}\<close>; the greedy
  group is that whole run. \<open>match_placeholder\<close> returns the name and the text after
  the match.
\<close>

definition match_placeholder :: "string \<Rightarrow> (string \<times> string) option" where
  "match_placeholder s =
     (if startswith s ''${'' then
        (let body = drop 2 s;
             name = takeWhile (\<lambda>c. c \<noteq> CHR ''}'') body;
             rest = dropWhile (\<lambda>c. c \<noteq> CHR ''}'') body
         in if name \<noteq> [] \<and> rest \<noteq> [] then Some (name, tl rest) else None)
      else None)"

text \<open>\<^verbatim>\<open>PLACEHOLDER_RE.search(s)\<close> as a truth value.\<close>

fun placeholder_search :: "string \<Rightarrow> bool" where
  "placeholder_search [] = False"
| "placeholder_search (c # cs) =
     (match_placeholder (c # cs) \<noteq> None \<or> placeholder_search cs)"

text \<open>
  \<^verbatim>\<open>PLACEHOLDER_RE.sub(lambda m: ..., text)\<close>: the leftmost match is replaced by the
  function's result for its name, and the scan goes on after the match.
\<close>

function placeholder_sub :: "(string \<Rightarrow> string) \<Rightarrow> string \<Rightarrow> string" where
  "placeholder_sub repl s =
     (if s = [] then []
      else (case match_placeholder s of
              Some (name, rest) \<Rightarrow> repl name @ placeholder_sub repl rest
            | None \<Rightarrow> hd s # placeholder_sub repl (tl s)))"
  by pat_completeness auto
termination
proof (relation "measure (\<lambda>(repl, s). length s)")
  show "wf (measure (\<lambda>(repl, s). length s))"
    by simp
next
  fix repl :: "string \<Rightarrow> string" and s :: string and x name rest
  assume ne: "s \<noteq> []" and m: "match_placeholder s = Some x" and x: "(name, rest) = x"
  from m x have "rest = tl (dropWhile (\<lambda>c. c \<noteq> CHR ''}'') (drop 2 s))"
    by (auto simp: match_placeholder_def Let_def split: if_splits)
  moreover have "length (dropWhile (\<lambda>c. c \<noteq> CHR ''}'') (drop 2 s)) \<le> length (drop 2 s)"
    by (rule length_dropWhile_le)
  ultimately have "length rest \<le> length s - 2"
    by simp
  moreover from ne have "0 < length s"
    by simp
  ultimately have "length rest < length s"
    by arith
  then show "((repl, rest), (repl, s)) \<in> measure (\<lambda>(repl, s). length s)"
    by simp
next
  fix repl :: "string \<Rightarrow> string" and s :: string
  assume "s \<noteq> []"
  then show "((repl, tl s), (repl, s)) \<in> measure (\<lambda>(repl, s). length s)"
    by simp
qed

declare placeholder_sub.simps [simp del]

text \<open>
  \<^verbatim>\<open>CONDITIONAL_RE = ([^|\s]+\|[^|\s]+)\<close>. \<^verbatim>\<open>\s\<close> on a \<^verbatim>\<open>str\<close> pattern is Unicode
  white space; below code point 256 these are 9 to 13, 28 to 32, 133 and 160. At a
  position the pattern matches exactly when a non-empty maximal run of characters that
  are neither \<^verbatim>\<open>|\<close> nor white space is followed by \<^verbatim>\<open>|\<close> and by another such
  non-empty run. \<open>match_conditional\<close> returns the length of the match.
\<close>

definition is_space :: "char \<Rightarrow> bool" where
  "is_space c =
     (let n = of_char c :: nat
      in (9 \<le> n \<and> n \<le> 13) \<or> (28 \<le> n \<and> n \<le> 32) \<or> n = 133 \<or> n = 160)"

definition option_char :: "char \<Rightarrow> bool" where
  "option_char c = (c \<noteq> CHR ''|'' \<and> \<not> is_space c)"

definition match_conditional :: "string \<Rightarrow> nat option" where
  "match_conditional s =
     (let first = takeWhile option_char s;
          rest = dropWhile option_char s
      in if first \<noteq> [] \<and> rest \<noteq> [] \<and> hd rest = CHR ''|'' then
           (let second = takeWhile option_char (tl rest)
            in if second \<noteq> [] then Some (length first + 1 + length second) else None)
         else None)"

function conditional_sub ::
  "(string \<Rightarrow> py_error + string) \<Rightarrow> string \<Rightarrow> py_error + string" where
  "conditional_sub repl s =
     (if s = [] then Inr []
      else (case match_conditional s of
              Some n \<Rightarrow>
                (case repl (take n s) of
                   Inl e \<Rightarrow> Inl e
                 | Inr r \<Rightarrow>
                     (case conditional_sub repl (drop n s) of
                        Inl e \<Rightarrow> Inl e
                      | Inr t \<Rightarrow> Inr (r @ t)))
            | None \<Rightarrow>
                (case conditional_sub repl (tl s) of
                   Inl e \<Rightarrow> Inl e
                 | Inr t \<Rightarrow> Inr (hd s # t))))"
  by pat_completeness auto
termination
  by (relation "measure (\<lambda>(repl, s). length s)")
     (auto simp: match_conditional_def Let_def split: if_splits)

declare conditional_sub.simps [simp del]

text \<open>\<^verbatim>\<open>s.split('|')\<close>.\<close>

fun split_pipe :: "string \<Rightarrow> string list" where
  "split_pipe [] = [[]]"
| "split_pipe (c # cs) =
     (if c = CHR ''|'' then [] # split_pipe cs
      else (case split_pipe cs of
              [] \<Rightarrow> [[c]]
            | p # ps \<Rightarrow> (c # p) # ps))"

subsection \<open>The passes over one string\<close>

definition role_mappings :: "string \<Rightarrow> string \<Rightarrow> string \<Rightarrow> (string \<times> string) list" where
  "role_mappings partition_name account lambda_prefix_value =
     map (\<lambda>(cf_ref, role).
            (cf_ref, ''arn:'' @ partition_name @ '':iam::'' @ account @ '':role/'' @
                     lambda_prefix_value @ ''-'' @ role))
       [(''MultiorgMigrationRole.Arn'', ''MultiorgMigrationRole''),
        (''MultiorgInvokeTelephonyIntegrationApiFunctionRoleResource.Arn'',
           ''InvokeTelephonyIntegrationApiFunctionRole''),
        (''MultiorgContactDataSyncFunctionRoleResource.Arn'',
           ''ContactDataSyncFunctionRole''),
        (''MultiorgPostCallAnalysisTriggerFunctionRoleResource.Arn'',
           ''PostCallAnalysisTriggerFunctionRole''),
        (''MultiorgInvokeSalesforceRestApiFunctionRoleResource.Arn'',
           ''InvokeSalesforceRestApiFunctionRole''),
        (''MultiorgKvsTranscriberRoleResource.Arn'', ''KvsTranscriberRole''),
        (''MultiorgKvsConsumerTriggerRoleResource.Arn'', ''KvsConsumerTriggerRole''),
        (''MultiorgContactLensConsumerFunctionRoleResource.Arn'',
           ''ContactLensConsumerFunctionRole''),
        (''MultiorgVoiceMailAudioProcessingRoleResource.Arn'',
           ''VoiceMailAudioProcessingRole''),
        (''MultiorgVoiceMailPackagingRoleResource.Arn'', ''VoiceMailPackagingRole''),
        (''MultiorgVoiceMailTranscribeRoleResource.Arn'', ''VoiceMailTranscribeRole''),
        (''MultiorgHandleContactEventsRoleResource.Arn'', ''HandleContactEventsRole''),
        (''MultiorgStreamDiscoveryFunctionRoleResource.Arn'',
           ''StreamDiscoveryFunctionRole''),
        (''S3SecretCacheTTLRole.Arn'', ''S3SecretCacheTTLRole'')]"

text \<open>
  \<^verbatim>\<open>for cf_ref, actual_arn in mappings.items(): text = text.replace(cf_ref, actual_arn)\<close>,
  the dict in insertion order.
\<close>

definition replace_all :: "(string \<times> string) list \<Rightarrow> string \<Rightarrow> string" where
  "replace_all mappings text =
     fold (\<lambda>(cf_ref, actual_arn) t. str_replace cf_ref actual_arn t) mappings text"

definition fix_multiorg_role_references :: "string \<Rightarrow> replacements \<Rightarrow> string" where
  "fix_multiorg_role_references text replacements =
     (case usable_prefix (py_or (replacements ''lambdaPrefix'') (replacements ''LambdaPrefix''))
      of None \<Rightarrow> text
       | Some lambda_prefix_value \<Rightarrow>
           (let partition_name = dict_get (replacements ''AWS::Partition'') ''aws'';
                account = dict_get (replacements ''AWS::AccountId'') ''${AWS::AccountId}''
            in replace_all (role_mappings partition_name account lambda_prefix_value) text))"

definition ctr_ref :: string where
  "ctr_ref = ''MultiorgStreamDiscoveryCustomResource.CTRStreamArn''"

definition contact_lens_ref :: string where
  "contact_lens_ref = ''MultiorgStreamDiscoveryCustomResource.ContactLensStreamArn''"

text \<open>
  The dict \<^verbatim>\<open>custom_mappings\<close> after the \<^verbatim>\<open>try\<close> block: empty unless discovery
  is attempted and returns, then holding an entry for each ARN that is a non-empty
  string.
\<close>

definition discovered_mappings ::
  "resolver_env \<Rightarrow> string \<Rightarrow> string \<Rightarrow> string option \<Rightarrow> (string \<times> string) list" where
  "discovered_mappings env text region_name connect_id =
     (case connect_id of
        Some cid \<Rightarrow>
          if (contains ctr_ref text \<or> contains contact_lens_ref text)
             \<and> cid \<noteq> [] \<and> cid \<noteq> ''ConnectInstanceId''
          then (case discover_connect_streams env cid
                       (if region_name \<noteq> ''${AWS::Region}'' then Some region_name else None)
                of Inl e \<Rightarrow> []
                 | Inr streams \<Rightarrow>
                     (case ctr_stream_arn streams of
                        Some arn \<Rightarrow> if arn \<noteq> [] then [(ctr_ref, arn)] else []
                      | None \<Rightarrow> [])
                     @ (case contact_lens_stream_arn streams of
                          Some arn \<Rightarrow> if arn \<noteq> [] then [(contact_lens_ref, arn)] else []
                        | None \<Rightarrow> []))
          else []
      | None \<Rightarrow> [])"

definition fix_custom_resource_outputs ::
  "resolver_env \<Rightarrow> string \<Rightarrow> replacements \<Rightarrow> string" where
  "fix_custom_resource_outputs env text replacements =
     (case usable_prefix (py_or (replacements ''lambdaPrefix'') (replacements ''LambdaPrefix''))
      of None \<Rightarrow> text
       | Some lambda_prefix_value \<Rightarrow>
           (let partition_name = dict_get (replacements ''AWS::Partition'') ''aws'';
                account = dict_get (replacements ''AWS::AccountId'') ''${AWS::AccountId}'';
                region_name = dict_get (replacements ''AWS::Region'') ''${AWS::Region}'';
                connect_id = replacements ''ConnectInstanceId'';
                found = discovered_mappings env text region_name connect_id;
                with_ctr =
                  (if ctr_ref \<notin> fst ` set found
                   then found @ [(ctr_ref, ''arn:'' @ partition_name @ '':kinesis:'' @
                                   region_name @ '':'' @ account @ '':stream/'' @
                                   lambda_prefix_value @ ''-CTRStream'')]
                   else found);
                custom_mappings =
                  (if contact_lens_ref \<notin> fst ` set with_ctr
                   then with_ctr @ [(contact_lens_ref, ''arn:'' @ partition_name @
                                   '':kinesis:'' @ region_name @ '':'' @ account @
                                   '':stream/'' @ lambda_prefix_value @ ''-ContactLensStream'')]
                   else with_ctr)
            in replace_all custom_mappings text))"

text \<open>
  \<^verbatim>\<open>clean_duplicate_prefixes\<close>: the pattern is the escaped, hence literal, text
  \<^verbatim>\<open>{prefix}-{prefix}-\<close>, so the matches are those of \<^verbatim>\<open>str.replace\<close>; the replacement
  \<^verbatim>\<open>f"{lambda_prefix}-"\<close> is a template.
\<close>

definition expand_template :: "resolver_env \<Rightarrow> string \<Rightarrow> string \<Rightarrow> py_error + string" where
  "expand_template env template matched =
     (if CHR 0x5C \<in> set template then re_expand_template env template matched
      else Inr template)"

definition clean_duplicate_prefixes ::
  "resolver_env \<Rightarrow> string \<Rightarrow> replacements \<Rightarrow> py_error + string" where
  "clean_duplicate_prefixes env text replacements =
     (case usable_prefix (py_or (replacements ''lambdaPrefix'') (replacements ''LambdaPrefix''))
      of None \<Rightarrow> Inr text
       | Some lambda_prefix_value \<Rightarrow>
           (let duplicate = lambda_prefix_value @ ''-'' @ lambda_prefix_value @ ''-''
            in then_do (expand_template env (lambda_prefix_value @ ''-'') duplicate)
                 (\<lambda>single. Inr (str_replace duplicate single text))))"

text \<open>
  The replacement function of \<^verbatim>\<open>PLACEHOLDER_RE.sub\<close>,
  \<^verbatim>\<open>lambda m: str(replacements.get(m.group(1), m.group(0)))\<close>, on the name of the match.
\<close>

definition replace_match :: "replacements \<Rightarrow> string \<Rightarrow> string" where
  "replace_match replacements name = dict_get (replacements name) (''${'' @ name @ ''}'')"

definition replace_placeholders_in_string ::
  "resolver_env \<Rightarrow> string \<Rightarrow> replacements \<Rightarrow> py_error + string" where
  "replace_placeholders_in_string env text replacements =
     (let text1 = fix_multiorg_role_references text replacements;
          text2 = fix_custom_resource_outputs env text1 replacements;
          text3 = placeholder_sub (replace_match replacements) text2
      in clean_duplicate_prefixes env text3 replacements)"

subsection \<open>Conditional options\<close>

definition resolve_conditional_options ::
  "resolver_env \<Rightarrow> string \<Rightarrow> string \<Rightarrow> replacements \<Rightarrow> py_error + string" where
  "resolve_conditional_options env option1 option2 replacements =
     (let option1_has_lambda_prefix =
            (contains ''${LambdaPrefix}'' option1 \<or> contains ''${lambdaPrefix}'' option1);
          option2_has_lambda_prefix =
            (contains ''${LambdaPrefix}'' option2 \<or> contains ''${lambdaPrefix}'' option2);
          lambda_prefix_value =
            usable_prefix (py_or (replacements ''LambdaPrefix'') (replacements ''lambdaPrefix''))
      in if option1_has_lambda_prefix \<and> lambda_prefix_value \<noteq> None
         then replace_placeholders_in_string env option1 replacements
         else if option2_has_lambda_prefix \<and> lambda_prefix_value \<noteq> None
         then replace_placeholders_in_string env option2 replacements
         else
           then_do (replace_placeholders_in_string env option1 replacements)
             (\<lambda>option1_resolved.
                if \<not> placeholder_search option1_resolved
                   \<and> \<not> startswith option1_resolved ''-''
                then Inr option1_resolved
                else
                  then_do (replace_placeholders_in_string env option2 replacements)
                    (\<lambda>option2_resolved.
                       if \<not> placeholder_search option2_resolved
                          \<and> \<not> startswith option2_resolved ''-''
                       then Inr option2_resolved
                       else if \<not> startswith option1_resolved ''-''
                               \<and> \<not> startswith option2_resolved ''-''
                       then (if option1_has_lambda_prefix then Inr option1_resolved
                             else if option2_has_lambda_prefix then Inr option2_resolved
                             else Inr option1_resolved)
                       else if \<not> startswith option1_resolved ''-''
                       then Inr option1_resolved
                       else if \<not> startswith option2_resolved ''-''
                       then Inr option2_resolved
                       else Inr option1_resolved)))"

definition replace_conditional_match ::
  "resolver_env \<Rightarrow> replacements \<Rightarrow> string \<Rightarrow> py_error + string" where
  "replace_conditional_match env replacements conditional_part =
     (case split_pipe conditional_part of
        [option1, option2] \<Rightarrow> resolve_conditional_options env option1 option2 replacements
      | _ \<Rightarrow> Inr conditional_part)"

definition resolve_conditional_placeholder ::
  "resolver_env \<Rightarrow> string \<Rightarrow> replacements \<Rightarrow> py_error + string" where
  "resolve_conditional_placeholder env v replacements =
     conditional_sub (replace_conditional_match env replacements) v"

subsection \<open>Documents\<close>

text \<open>
  A template document is what \<^verbatim>\<open>json.load\<close> returns: a dict (its items in insertion
  order), a list, a string, or any other value, which \<^verbatim>\<open>replace_placeholders\<close>
  returns as it is; the type of those other values is a parameter.
\<close>

datatype 's document =
    Object "(string \<times> 's document) list"
  | Sequence "'s document list"
  | Str string
  | Scalar 's

fun replace_placeholders ::
      "resolver_env \<Rightarrow> 's document \<Rightarrow> replacements \<Rightarrow> py_error + 's document"
  and replace_placeholders_list ::
      "resolver_env \<Rightarrow> 's document list \<Rightarrow> replacements \<Rightarrow> py_error + 's document list"
  and replace_placeholders_items ::
      "resolver_env \<Rightarrow> (string \<times> 's document) list \<Rightarrow> replacements \<Rightarrow>
       py_error + (string \<times> 's document) list" where
  "replace_placeholders env (Object items) replacements =
     (case replace_placeholders_items env items replacements of
        Inl e \<Rightarrow> Inl e | Inr items' \<Rightarrow> Inr (Object items'))"
| "replace_placeholders env (Sequence xs) replacements =
     (case replace_placeholders_list env xs replacements of
        Inl e \<Rightarrow> Inl e | Inr xs' \<Rightarrow> Inr (Sequence xs'))"
| "replace_placeholders env (Str s) replacements =
     (case resolve_conditional_placeholder env s replacements of
        Inl e \<Rightarrow> Inl e
      | Inr resolved \<Rightarrow>
          (case replace_placeholders_in_string env resolved replacements of
             Inl e \<Rightarrow> Inl e | Inr s' \<Rightarrow> Inr (Str s')))"
| "replace_placeholders env (Scalar v) replacements = Inr (Scalar v)"
| "replace_placeholders_list env [] replacements = Inr []"
| "replace_placeholders_list env (x # xs) replacements =
     (case replace_placeholders env x replacements of
        Inl e \<Rightarrow> Inl e
      | Inr x' \<Rightarrow>
          (case replace_placeholders_list env xs replacements of
             Inl e \<Rightarrow> Inl e | Inr xs' \<Rightarrow> Inr (x' # xs')))"
| "replace_placeholders_items env [] replacements = Inr []"
| "replace_placeholders_items env ((k, v) # items) replacements =
     (case replace_placeholders env v replacements of
        Inl e \<Rightarrow> Inl e
      | Inr v' \<Rightarrow>
          (case replace_placeholders_items env items replacements of
             Inl e \<Rightarrow> Inl e | Inr items' \<Rightarrow> Inr ((k, v') # items')))"

section \<open>Specification vocabulary for the aggregator\<close>

text \<open>
  The items of all reports in order, the status an item is classified by
  (\<^verbatim>\<open>hc.get("status", 500)\<close>), and the three buckets.
\<close>

definition all_health_checks :: "resource_type_report list \<Rightarrow> health_check list" where
  "all_health_checks full_report =
     concat (map (\<lambda>r. dict_get (DetailedHealthCheck r) []) full_report)"

definition effective_status :: "health_check \<Rightarrow> int" where
  "effective_status hc = dict_get (status hc) 500"

definition is_healthy :: "health_check \<Rightarrow> bool" where
  "is_healthy hc = (effective_status hc = 200)"

definition is_unhealthy :: "health_check \<Rightarrow> bool" where
  "is_unhealthy hc = (effective_status hc \<ge> 400)"

definition is_warning :: "health_check \<Rightarrow> bool" where
  "is_warning hc = (\<not> is_healthy hc \<and> \<not> is_unhealthy hc)"

definition count_where :: "('a \<Rightarrow> bool) \<Rightarrow> 'a list \<Rightarrow> int" where
  "count_where P xs = int (length (filter P xs))"

section \<open>Specification vocabulary for the orchestrator\<close>

text \<open>
  The report and the error entries that one task contributes, written declaratively.
\<close>

fun report_of_task :: "string \<times> task_outcome \<Rightarrow> resource_type_report" where
  "report_of_task (task_name, Returns result) = result"
| "report_of_task (task_name, Raises e) =
     \<lparr>ResourceType = Some (''Failed '' @ task_name),
      DetailedHealthCheck =
        Some [\<lparr>ResourceName = Some task_name, status = Some 500,
                message = Some (''Failed to validate '' @ task_name @ '': '' @ e)\<rparr>]\<rparr>"

fun task_error_entries :: "string \<times> task_outcome \<Rightarrow> string list" where
  "task_error_entries (task_name, Returns result) =
     map (\<lambda>hc. dict_get (ResourceName hc) ''Unknown'' @ '': '' @
               dict_get (message hc) ''Unknown error'')
       (filter (\<lambda>hc. status hc \<noteq> Some 200) (dict_get (DetailedHealthCheck result) []))"
| "task_error_entries (task_name, Raises e) =
     [''Failed to validate '' @ task_name @ '': '' @ e]"

section \<open>Specification vocabulary for the resolver\<close>

text \<open>
  Names for the tests that \<^verbatim>\<open>resolve_conditional_options\<close> makes: whether an option
  contains one of the two spellings of the prefix token, the prefix value it looks up
  (\<^verbatim>\<open>LambdaPrefix\<close> first), and whether its first two branches apply.
\<close>

definition has_lambda_prefix_token :: "string \<Rightarrow> bool" where
  "has_lambda_prefix_token opt =
     (contains ''${LambdaPrefix}'' opt \<or> contains ''${lambdaPrefix}'' opt)"

definition conditional_prefix :: "replacements \<Rightarrow> string option" where
  "conditional_prefix replacements =
     usable_prefix (py_or (replacements ''LambdaPrefix'') (replacements ''lambdaPrefix''))"

definition priority_applies :: "string \<Rightarrow> string \<Rightarrow> replacements \<Rightarrow> bool" where
  "priority_applies option1 option2 replacements =
     ((has_lambda_prefix_token option1 \<or> has_lambda_prefix_token option2)
      \<and> conditional_prefix replacements \<noteq> None)"

text \<open>
  The prefix value that the passes over one string look up (\<^verbatim>\<open>lambdaPrefix\<close> first),
  and the error, if any, that the library raises for the replacement template
  \<^verbatim>\<open>{prefix}-\<close> of the duplicate-prefix cleanup.
\<close>

definition pass_prefix :: "replacements \<Rightarrow> string option" where
  "pass_prefix replacements =
     usable_prefix (py_or (replacements ''lambdaPrefix'') (replacements ''LambdaPrefix''))"

definition template_error :: "resolver_env \<Rightarrow> replacements \<Rightarrow> py_error option" where
  "template_error env replacements =
     (case pass_prefix replacements of
        None \<Rightarrow> None
      | Some p \<Rightarrow>
          (case expand_template env (p @ ''-'') (p @ ''-'' @ p @ ''-'') of
             Inl e \<Rightarrow> Some e
           | Inr single \<Rightarrow> None))"


text \<open>
  Two documents have the same shape when they agree in everything but the contents of
  their string leaves: the same keys in the same order, sequences of the same length,
  equal scalars.
\<close>

fun same_shape :: "'s document \<Rightarrow> 's document \<Rightarrow> bool"
  and same_shape_list :: "'s document list \<Rightarrow> 's document list \<Rightarrow> bool"
  and same_shape_items ::
      "(string \<times> 's document) list \<Rightarrow> (string \<times> 's document) list \<Rightarrow> bool" where
  "same_shape (Object items) (Object items') = same_shape_items items items'"
| "same_shape (Sequence xs) (Sequence ys) = same_shape_list xs ys"
| "same_shape (Str s) (Str s') = True"
| "same_shape (Scalar v) (Scalar v') = (v = v')"
| "same_shape d d' = False"
| "same_shape_list [] [] = True"
| "same_shape_list (x # xs) (y # ys) = (same_shape x y \<and> same_shape_list xs ys)"
| "same_shape_list xs ys = False"
| "same_shape_items [] [] = True"
| "same_shape_items ((k, v) # items) ((k', v') # items') =
     (k = k' \<and> same_shape v v' \<and> same_shape_items items items')"
| "same_shape_items items items' = False"

section \<open>Concrete inputs\<close>

definition example_env :: report_env where
  "example_env =
     \<lparr>utc_now_isoformat = ''2025-09-02T12:00:00+00:00'', is_debug_enabled = False\<rparr>"

definition example_input :: HealthCheckInput where
  "example_input =
     \<lparr>cc_version = ''19.0'', cc_name = ''mycc'', sku = ''resell'',
      connect_instance_arn = ''arn:aws:connect:us-west-2:123456789012:instance/abc'',
      execution_id = Some ''exec-1'', region = Some ''us-west-2'',
      connect_instance_id = Some ''abc'', account_id = Some ''123456789012'',
      partition = Some ''aws'', lambda_prefix = None, call_center_api_name = Some ''mycc'',
      s3_bucket_for_tenant_resources = None, s3_bucket_for_reports = None,
      include_detailed_errors = True, max_threads = 10\<rparr>"

definition statusless_check :: health_check where
  "statusless_check =
     \<lparr>ResourceName = Some ''bucket'', status = None, message = Some ''no status''\<rparr>"

definition statusless_report :: resource_type_report where
  "statusless_report =
     \<lparr>ResourceType = Some ''S3 Bucket'', DetailedHealthCheck = Some [statusless_check]\<rparr>"

definition mixed_report :: resource_type_report where
  "mixed_report =
     \<lparr>ResourceType = Some ''Lambda Function'',
      DetailedHealthCheck =
        Some [\<lparr>ResourceName = Some ''Function1'', status = Some 200,
                message = Some ''healthy''\<rparr>,
              \<lparr>ResourceName = Some ''Function2'', status = Some 201,
                message = Some ''created but not active''\<rparr>]\<rparr>"


definition quoted_name_report :: resource_type_report where
  "quoted_name_report =
     \<lparr>ResourceType = Some ''IAM Role'',
      DetailedHealthCheck =
        Some [\<lparr>ResourceName = Some (''my'' @ [CHR 0x22] @ ''role''), status = Some 500,
                message = Some (''no '' @ [CHR 0x22] @ ''access'' @ [CHR 0x22])\<rparr>]\<rparr>"

text \<open>
  Two environments for the resolver: in the first the discovery call fails, in the second
  it finds a stream for contact trace records. The contexts below carry prefixes without
  a backslash, so the library's template expansion is never consulted.
\<close>

definition offline_env :: resolver_env where
  "offline_env =
     \<lparr>discover_connect_streams = (\<lambda>cid r. Inl (ValueError ''no network'')),
      re_expand_template = (\<lambda>template matched. Inl (re_error ''bad escape''))\<rparr>"

definition ctx_both :: replacements where
  "ctx_both = map_of [(''CallCenterApiName'', ''mycc''), (''LambdaPrefix'', ''myorg'')]"

definition ctx_absent :: replacements where
  "ctx_absent = map_of [(''CallCenterApiName'', ''mycc'')]"

definition ctx_empty :: replacements where
  "ctx_empty = map_of [(''CallCenterApiName'', ''mycc''), (''LambdaPrefix'', [])]"

definition ctx_upper :: replacements where
  "ctx_upper = map_of [(''CallCenterApiName'', ''mycc''), (''LAMBDAPREFIX'', ''myorg'')]"

definition ctx_sentinel :: replacements where
  "ctx_sentinel =
     map_of [(''CallCenterApiName'', ''mycc''), (''LambdaPrefix'', ''LambdaPrefix''),
             (''lambdaPrefix'', ''myorg'')]"






definition example_document :: "int document" where
  "example_document =
     Object [(''LambdaFunctions'',
              Sequence [Object [(''name'', Str ''${CallCenterApiName}-F|${LambdaPrefix}-F''),
                                (''timeout'', Scalar 30)],
                        Object [(''name'', Str ''${LambdaPrefix}-G'')]]),
             (''version'', Scalar 2)]"

section \<open>Verified properties\<close>

subsection \<open>Summary counters\<close>

lemma count_where_simps [simp]:
  "count_where P [] = 0"
  "count_where P (x # xs) = (if P x then 1 else 0) + count_where P xs"
  "count_where P (xs @ ys) = count_where P xs + count_where P ys"
  by (simp_all add: count_where_def)

lemma count_health_check_step:
  "count_health_check hc c =
     c\<lparr>healthy_resources := healthy_resources c + (if is_healthy hc then 1 else 0),
       unhealthy_resources := unhealthy_resources c + (if is_unhealthy hc then 1 else 0),
       warning_resources := warning_resources c + (if is_warning hc then 1 else 0)\<rparr>"
  by (simp add: count_health_check_def Let_def is_healthy_def is_unhealthy_def
      is_warning_def effective_status_def)

lemma fold_count_health_check:
  "fold count_health_check hcs c =
     c\<lparr>healthy_resources := healthy_resources c + count_where is_healthy hcs,
       unhealthy_resources := unhealthy_resources c + count_where is_unhealthy hcs,
       warning_resources := warning_resources c + count_where is_warning hcs\<rparr>"
proof (induction hcs arbitrary: c)
  case Nil
  show ?case by simp
next
  case (Cons hc hcs)
  show ?case
    unfolding fold_Cons comp_apply Cons.IH
    by (simp add: count_health_check_step add.assoc)
qed

lemma fold_count_report:
  "fold count_report rs c =
     c\<lparr>total_resources := total_resources c + int (length (all_health_checks rs)),
       healthy_resources := healthy_resources c + count_where is_healthy (all_health_checks rs),
       unhealthy_resources :=
         unhealthy_resources c + count_where is_unhealthy (all_health_checks rs),
       warning_resources :=
         warning_resources c + count_where is_warning (all_health_checks rs)\<rparr>"
proof (induction rs arbitrary: c)
  case Nil
  show ?case by (simp add: all_health_checks_def)
next
  case (Cons r rs)
  show ?case
    unfolding fold_Cons comp_apply Cons.IH
    by (simp add: count_report_def Let_def fold_count_health_check
        all_health_checks_def add.assoc)
qed

lemma summary_statistics_eq:
  "summary_statistics rs =
     \<lparr>total_resources = int (length (all_health_checks rs)),
      healthy_resources = count_where is_healthy (all_health_checks rs),
      unhealthy_resources = count_where is_unhealthy (all_health_checks rs),
      warning_resources = count_where is_warning (all_health_checks rs)\<rparr>"
  by (simp add: summary_statistics_def fold_count_report)

lemma bucket_partition:
  "count_where is_healthy xs + count_where is_unhealthy xs + count_where is_warning xs
     = int (length xs)"
  by (induction xs) (auto simp: is_warning_def is_healthy_def is_unhealthy_def)

lemma count_where_pos: "0 < count_where P xs \<longleftrightarrow> filter P xs \<noteq> []"
  by (simp add: count_where_def)

text \<open>
  C4. The summary of \<^verbatim>\<open>generate_enhanced_report\<close> counts every item of every
  report in exactly one of three buckets: healthy when its status is 200, unhealthy when
  its status is at least 400, warning otherwise; the three counts add up to the total
  number of items. The overall status is UNHEALTHY when some item is unhealthy, otherwise
  WARNING when some item is a warning or the error list is non-empty, otherwise HEALTHY.
\<close>

theorem generate_enhanced_report_summary:
  "report_summary (generate_enhanced_report env hi full_report exec_id t errs) =
     \<lparr>overall_status =
        (if filter is_unhealthy (all_health_checks full_report) \<noteq> [] then ''UNHEALTHY''
         else if filter is_warning (all_health_checks full_report) \<noteq> [] \<or> errs \<noteq> []
              then ''WARNING''
         else ''HEALTHY''),
      sum_total_resources = int (length (all_health_checks full_report)),
      healthy = count_where is_healthy (all_health_checks full_report),
      unhealthy = count_where is_unhealthy (all_health_checks full_report),
      warnings = count_where is_warning (all_health_checks full_report),
      error_count = int (length errs)\<rparr>
   \<and> count_where is_healthy (all_health_checks full_report)
       + count_where is_unhealthy (all_health_checks full_report)
       + count_where is_warning (all_health_checks full_report)
       = int (length (all_health_checks full_report))"
  by (simp add: generate_enhanced_report_def Let_def summary_statistics_eq
      determine_overall_status_def count_where_pos bucket_partition)

theorem generate_enhanced_report_summary_witness:
  "report_summary
     (generate_enhanced_report example_env example_input [mixed_report, statusless_report]
        ''exec-1'' (1500::int) []) =
     \<lparr>overall_status = ''UNHEALTHY'', sum_total_resources = 3, healthy = 1, unhealthy = 1,
      warnings = 1, error_count = 0\<rparr>
   \<and> report_summary
     (generate_enhanced_report example_env example_input [mixed_report]
        ''exec-1'' (1500::int) []) =
     \<lparr>overall_status = ''WARNING'', sum_total_resources = 2, healthy = 1, unhealthy = 0,
      warnings = 1, error_count = 0\<rparr>"
  using generate_enhanced_report_summary
    [where env = example_env and hi = example_input
       and full_report = "[mixed_report, statusless_report]"
       and exec_id = "''exec-1''" and t = "1500::int" and errs = "[]"]
    generate_enhanced_report_summary
    [where env = example_env and hi = example_input
       and full_report = "[mixed_report]"
       and exec_id = "''exec-1''" and t = "1500::int" and errs = "[]"]
  by (simp add: all_health_checks_def mixed_report_def statusless_report_def
      statusless_check_def dict_get_def is_healthy_def is_unhealthy_def is_warning_def
      effective_status_def)

subsection \<open>Items without a status\<close>

lemma mem_all_health_checks:
  "r \<in> set full_report \<Longrightarrow> DetailedHealthCheck r = Some hcs \<Longrightarrow> hc \<in> set hcs \<Longrightarrow>
   hc \<in> set (all_health_checks full_report)"
  by (auto simp: all_health_checks_def dict_get_def intro!: bexI [of _ r])

lemma missing_status_bucket:
  "status hc = None \<Longrightarrow> is_unhealthy hc \<and> \<not> is_healthy hc \<and> \<not> is_warning hc"
  by (simp add: is_unhealthy_def is_healthy_def is_warning_def effective_status_def
      dict_get_def)

text \<open>
  C10. An item that has no \<^verbatim>\<open>status\<close> key is classified with the default 500: the
  loop adds it to the unhealthy counter and to no other, and one such item in any report
  makes the overall status UNHEALTHY.
\<close>

theorem missing_status_counts_as_unhealthy:
  assumes "r \<in> set full_report" and "DetailedHealthCheck r = Some hcs"
    and "hc \<in> set hcs" and "status hc = None"
  shows "overall_status
           (report_summary
              (generate_enhanced_report env hi full_report exec_id t errs))
         = ''UNHEALTHY''
       \<and> unhealthy
           (report_summary
              (generate_enhanced_report env hi full_report exec_id t errs)) \<ge> 1
       \<and> count_health_check hc c = c\<lparr>unhealthy_resources := unhealthy_resources c + 1\<rparr>"
proof -
  have mem: "hc \<in> set (all_health_checks full_report)"
    using assms(1-3) by (rule mem_all_health_checks)
  have bad: "is_unhealthy hc"
    using assms(4) missing_status_bucket by blast
  from mem bad have ne: "filter is_unhealthy (all_health_checks full_report) \<noteq> []"
    by (auto simp: filter_empty_conv)
  then have pos: "0 < count_where is_unhealthy (all_health_checks full_report)"
    by (simp add: count_where_pos)
  have step: "count_health_check hc c = c\<lparr>unhealthy_resources := unhealthy_resources c + 1\<rparr>"
    using assms(4) by (simp add: count_health_check_def dict_get_def)
  show ?thesis
    using pos step
    by (simp add: generate_enhanced_report_def Let_def summary_statistics_eq
        determine_overall_status_def)
qed

theorem missing_status_counts_as_unhealthy_witness:
  "overall_status
     (report_summary
        (generate_enhanced_report example_env example_input [statusless_report]
           ''exec-1'' (0::int) []))
   = ''UNHEALTHY''"
  using missing_status_counts_as_unhealthy
    [where r = statusless_report and full_report = "[statusless_report]"
       and hcs = "[statusless_check]" and hc = statusless_check
       and env = example_env and hi = example_input
       and exec_id = "''exec-1''" and t = "0::int" and errs = "[]"]
  by (simp add: statusless_report_def statusless_check_def)

subsection \<open>The collecting loop of the orchestrator\<close>

lemma track_errors_eq:
  "track_errors hcs errs =
     errs @ map (\<lambda>hc. dict_get (ResourceName hc) ''Unknown'' @ '': '' @
               dict_get (message hc) ''Unknown error'')
       (filter (\<lambda>hc. status hc \<noteq> Some 200) hcs)"
  unfolding track_errors_def
  by (induction hcs arbitrary: errs) simp_all

lemma collect_result_eq:
  "collect_result t (full_report, errs) =
     (full_report @ [report_of_task t], errs @ task_error_entries t)"
proof (cases t)
  case (Pair task_name outcome)
  then show ?thesis
    by (cases outcome) (simp_all add: track_errors_eq failed_validation_result_def Let_def)
qed

lemma fold_collect_result:
  "fold collect_result ts (full_report, errs) =
     (full_report @ map report_of_task ts, errs @ concat (map task_error_entries ts))"
proof (induction ts arbitrary: full_report errs)
  case Nil
  show ?case by simp
next
  case (Cons t ts)
  show ?case
    unfolding fold_Cons comp_apply collect_result_eq Cons.IH by simp
qed


lemma execute_validations_eq:
  "0 < max_threads (health_input self) \<Longrightarrow>
   execute_validations as_completed self validation_tasks =
     Inr (map report_of_task (as_completed validation_tasks),
          self\<lparr>errors := errors self
                   @ concat (map task_error_entries (as_completed validation_tasks))\<rparr>)"
  by (simp add: execute_validations_def fold_collect_result)



text \<open>
  The registry of \<^verbatim>\<open>validate_all_resources_parallel\<close> has eleven tasks, so its report
  list has eleven entries.
\<close>

lemma validate_all_resources_parallel_count:
  assumes "0 < max_threads (health_input self)"
    and "\<And>ts. mset (as_completed ts) = mset ts"
  shows "\<exists>full_report self'.
           validate_all_resources_parallel as_completed validators self
             = Inr (full_report, self')
         \<and> length full_report = 11"
proof -
  let ?tasks = "map (\<lambda>task_name. (task_name, validators task_name)) validation_task_names"
  have "length (as_completed ?tasks) = length ?tasks"
    using assms(2) by (rule mset_eq_length)
  then have "length (map report_of_task (as_completed ?tasks)) = 11"
    by (simp add: validation_task_names_def)
  then show ?thesis
    unfolding validate_all_resources_parallel_def
      execute_validations_eq [OF assms(1), of as_completed ?tasks]
    by blast
qed



subsection \<open>CSV rendering\<close>

lemma fold_append_rows:
  "fold (\<lambda>r lines. lines @ f r) rs init = init @ concat (map f rs)"
  by (induction rs arbitrary: init) simp_all

lemma generate_csv_report_eq:
  "generate_csv_report d =
     join [CHR 0x0A]
       (''ResourceName,ResourceType,Status,Message''
        # concat (map csv_rows_of_report (dict_get d [])))"
  by (simp add: generate_csv_report_def fold_append_rows)

lemma escape_quotes:
  "str_replace [q] [q, q] s = concat (map (\<lambda>c. if c = q then [q, q] else [c]) s)"
proof (induction s)
  case Nil
  show ?case by (simp add: str_replace.simps)
next
  case (Cons c s)
  show ?case
    by (subst str_replace.simps) (simp add: startswith_def Cons.IH)
qed

text \<open>
  C8. The claim asks for internal double quotes to be doubled in every field.
  \<^verbatim>\<open>generate_csv_report\<close> doubles them in the message only: a resource name
  \<^verbatim>\<open>my"role\<close> is written between quotes unchanged, next to a message whose quotes
  are doubled.
\<close>

theorem csv_name_not_escaped:
  "generate_csv_report (Some [quoted_name_report]) =
     ''ResourceName,ResourceType,Status,Message'' @ [CHR 0x0A] @
     [CHR 0x22] @ ''my'' @ [CHR 0x22] @ ''role'' @ [CHR 0x22] @ '','' @
     [CHR 0x22] @ ''IAM Role'' @ [CHR 0x22] @ '','' @
     [CHR 0x22] @ ''UNHEALTHY'' @ [CHR 0x22] @ '','' @
     [CHR 0x22] @ ''no '' @ [CHR 0x22, CHR 0x22] @ ''access'' @ [CHR 0x22, CHR 0x22]
       @ [CHR 0x22]"
  by (simp add: generate_csv_report_eq csv_rows_of_report_def csv_row_def
      quoted_name_report_def dict_get_def escape_quotes)

subsection \<open>Conditional options\<close>

lemma resolve_conditional_options_priority:
  "conditional_prefix ctx \<noteq> None \<Longrightarrow> has_lambda_prefix_token option1 \<Longrightarrow>
   resolve_conditional_options env option1 option2 ctx
     = replace_placeholders_in_string env option1 ctx"
  "conditional_prefix ctx \<noteq> None \<Longrightarrow> \<not> has_lambda_prefix_token option1 \<Longrightarrow>
   has_lambda_prefix_token option2 \<Longrightarrow>
   resolve_conditional_options env option1 option2 ctx
     = replace_placeholders_in_string env option2 ctx"
  by (simp_all add: resolve_conditional_options_def Let_def has_lambda_prefix_token_def
      conditional_prefix_def)

lemma p3_examples:
  "resolve_conditional_placeholder env
     ''${CallCenterApiName}-Function|${LambdaPrefix}-Function'' ctx_both
     = Inr ''myorg-Function''"
  "replace_placeholders_in_string env ''myorg-Function'' ctx_both = Inr ''myorg-Function''"
  "resolve_conditional_placeholder env
     ''${CallCenterApiName}-Function|${LambdaPrefix}-Function'' ctx_absent
     = Inr ''mycc-Function''"
  "replace_placeholders_in_string env ''mycc-Function'' ctx_absent = Inr ''mycc-Function''"
  "resolve_conditional_placeholder env
     ''${CallCenterApiName}-Function|${LambdaPrefix}-Function'' ctx_empty
     = Inr ''mycc-Function''"
  "replace_placeholders_in_string env ''mycc-Function'' ctx_empty = Inr ''mycc-Function''"
  by code_simp+

text \<open>
  C3, as the code has it. When exactly one of the two options contains
  \<^verbatim>\<open>${LambdaPrefix}\<close> or \<^verbatim>\<open>${lambdaPrefix}\<close> (these two spellings, matched exactly)
  and the prefix value that the code looks up, the value of \<^verbatim>\<open>LambdaPrefix\<close> when it
  is a non-empty string and the value of \<^verbatim>\<open>lambdaPrefix\<close> otherwise, is non-empty and
  is neither \<^verbatim>\<open>LambdaPrefix\<close> nor \<^verbatim>\<open>lambdaPrefix\<close>, that option is selected and
  returned after \<^verbatim>\<open>replace_placeholders_in_string\<close>. With the context
  \<^verbatim>\<open>{"CallCenterApiName": "mycc", "LambdaPrefix": "myorg"}\<close> the template
  \<^verbatim>\<open>${CallCenterApiName}-Function|${LambdaPrefix}-Function\<close> resolves to
  \<^verbatim>\<open>myorg-Function\<close>, and with \<^verbatim>\<open>LambdaPrefix\<close> absent or empty to
  \<^verbatim>\<open>mycc-Function\<close>.
\<close>

theorem conditional_priority:
  "(conditional_prefix ctx \<noteq> None \<and> has_lambda_prefix_token option1
      \<and> \<not> has_lambda_prefix_token option2
    \<longrightarrow> resolve_conditional_options env option1 option2 ctx
          = replace_placeholders_in_string env option1 ctx)
   \<and> (conditional_prefix ctx \<noteq> None \<and> \<not> has_lambda_prefix_token option1
      \<and> has_lambda_prefix_token option2
    \<longrightarrow> resolve_conditional_options env option1 option2 ctx
          = replace_placeholders_in_string env option2 ctx)
   \<and> replace_placeholders env
        (Str ''${CallCenterApiName}-Function|${LambdaPrefix}-Function'') ctx_both
       = Inr (Str ''myorg-Function'')
   \<and> replace_placeholders env
        (Str ''${CallCenterApiName}-Function|${LambdaPrefix}-Function'') ctx_absent
       = Inr (Str ''mycc-Function'')
   \<and> replace_placeholders env
        (Str ''${CallCenterApiName}-Function|${LambdaPrefix}-Function'') ctx_empty
       = Inr (Str ''mycc-Function'')"
  by (simp add: resolve_conditional_options_priority p3_examples)

theorem conditional_priority_witness:
  "resolve_conditional_options offline_env ''${CallCenterApiName}-Function''
     ''${LambdaPrefix}-Function'' ctx_both = Inr ''myorg-Function''"
proof -
  have a: "conditional_prefix ctx_both \<noteq> None
           \<and> \<not> has_lambda_prefix_token ''${CallCenterApiName}-Function''
           \<and> has_lambda_prefix_token ''${LambdaPrefix}-Function''"
    by code_simp
  have d: "replace_placeholders_in_string offline_env ''${LambdaPrefix}-Function'' ctx_both
             = Inr ''myorg-Function''"
    by code_simp
  from conditional_priority
    [of ctx_both "''${CallCenterApiName}-Function''" "''${LambdaPrefix}-Function''" offline_env,
     THEN conjunct2, THEN conjunct1, rule_format, OF a]
  show ?thesis
    unfolding d .
qed

text \<open>
  The claim as stated fails in two ways. The token is not matched case-insensitively:
  \<^verbatim>\<open>${LAMBDAPREFIX}\<close> with a value in the context gives its option no priority. And
  a usable value of \<^verbatim>\<open>lambdaPrefix\<close> is ignored when \<^verbatim>\<open>LambdaPrefix\<close> holds the
  placeholder name. In both cases the first option is returned although the second one
  alone carries the token and resolves to \<^verbatim>\<open>myorg-Function\<close>.
\<close>

theorem conditional_priority_counterexample:
  "replace_placeholders offline_env
     (Str ''${CallCenterApiName}-Function|${LAMBDAPREFIX}-Function'' :: unit document) ctx_upper
     = Inr (Str ''mycc-Function'')
   \<and> replace_placeholders_in_string offline_env ''${LAMBDAPREFIX}-Function'' ctx_upper
     = Inr ''myorg-Function''
   \<and> replace_placeholders offline_env
     (Str ''${CallCenterApiName}-Function|${lambdaPrefix}-Function'' :: unit document)
     ctx_sentinel
     = Inr (Str ''mycc-Function'')
   \<and> replace_placeholders_in_string offline_env ''${lambdaPrefix}-Function'' ctx_sentinel
     = Inr ''myorg-Function''"
  by code_simp

lemma resolve_conditional_options_fallthrough:
  assumes "\<not> priority_applies option1 option2 ctx"
    and "resolve_conditional_options env option1 option2 ctx = Inr r"
  shows "\<exists>r1. replace_placeholders_in_string env option1 ctx = Inr r1
           \<and> (r = r1 \<and> \<not> startswith r1 ''-''
              \<or> (\<exists>r2. replace_placeholders_in_string env option2 ctx = Inr r2
                    \<and> (r = r2 \<and> \<not> startswith r2 ''-''
                       \<or> r = r1 \<and> startswith r1 ''-'' \<and> startswith r2 ''-'')))"
proof -
  from assms(2) obtain r1 where r1: "replace_placeholders_in_string env option1 ctx = Inr r1"
    using assms(1)
    by (cases "replace_placeholders_in_string env option1 ctx")
       (auto simp: resolve_conditional_options_def Let_def then_do_def priority_applies_def
          has_lambda_prefix_token_def conditional_prefix_def split: if_splits)
  show ?thesis
  proof (cases "\<not> placeholder_search r1 \<and> \<not> startswith r1 ''-''")
    case True
    with assms r1 show ?thesis
      by (auto simp: resolve_conditional_options_def Let_def then_do_def priority_applies_def
          has_lambda_prefix_token_def conditional_prefix_def split: if_splits)
  next
    case False
    with assms r1 obtain r2 where r2: "replace_placeholders_in_string env option2 ctx = Inr r2"
      by (cases "replace_placeholders_in_string env option2 ctx")
         (auto simp: resolve_conditional_options_def Let_def then_do_def priority_applies_def
            has_lambda_prefix_token_def conditional_prefix_def split: if_splits)
    with assms r1 False show ?thesis
      by (auto simp: resolve_conditional_options_def Let_def then_do_def priority_applies_def
          has_lambda_prefix_token_def conditional_prefix_def split: if_splits)
  qed
qed

text \<open>
  C7, as the code has it. When the first two branches do not apply (no option contains the
  prefix token, or the prefix value is unusable), a result that starts with \<^verbatim>\<open>-\<close> is
  the fallback: both options resolve to strings that start with \<^verbatim>\<open>-\<close>, and the
  first one is returned.
\<close>

theorem no_dangling_separator:
  assumes "\<not> priority_applies option1 option2 ctx"
    and "resolve_conditional_options env option1 option2 ctx = Inr r"
    and "startswith r ''-''"
  shows "\<exists>r1 r2. replace_placeholders_in_string env option1 ctx = Inr r1
           \<and> replace_placeholders_in_string env option2 ctx = Inr r2
           \<and> startswith r1 ''-'' \<and> startswith r2 ''-'' \<and> r = r1"
  using resolve_conditional_options_fallthrough [OF assms(1,2)] assms(3)
  by auto

theorem no_dangling_separator_witness:
  "resolve_conditional_options offline_env ''-${X}-Function'' ''-${Y}-Function'' ctx_absent
     = Inr ''-${X}-Function''
   \<and> replace_placeholders_in_string offline_env ''-${Y}-Function'' ctx_absent
     = Inr ''-${Y}-Function''"
proof -
  have a: "\<not> priority_applies ''-${X}-Function'' ''-${Y}-Function'' ctx_absent"
    by code_simp
  have b: "resolve_conditional_options offline_env ''-${X}-Function'' ''-${Y}-Function''
             ctx_absent = Inr ''-${X}-Function''"
    by code_simp
  have c: "startswith ''-${X}-Function'' ''-''"
    by code_simp
  have d: "replace_placeholders_in_string offline_env ''-${Y}-Function'' ctx_absent
     = Inr ''-${Y}-Function''"
    by code_simp
  from no_dangling_separator [OF a b c] b d show ?thesis
    by simp
qed

text \<open>
  The claim as stated fails when the first branch applies: the option that carries the
  prefix token is returned without a look at its first character, here
  \<^verbatim>\<open>-myorg-Function\<close>, although the other option resolves to \<^verbatim>\<open>mycc-Function\<close>.
\<close>

theorem no_dangling_separator_counterexample:
  "resolve_conditional_options offline_env ''-${LambdaPrefix}-Function''
     ''${CallCenterApiName}-Function'' ctx_both = Inr ''-myorg-Function''
   \<and> replace_placeholders_in_string offline_env ''${CallCenterApiName}-Function'' ctx_both
       = Inr ''mycc-Function''"
  by code_simp

subsection \<open>Errors of the resolver\<close>



lemma replace_placeholders_in_string_Inl:
  "replace_placeholders_in_string env text ctx = Inl e \<longleftrightarrow> template_error env ctx = Some e"
  by (auto simp: replace_placeholders_in_string_def Let_def clean_duplicate_prefixes_def
      template_error_def pass_prefix_def then_do_def split: option.splits sum.splits)


lemma template_error_no_backslash:
  "pass_prefix ctx = None \<or> (\<exists>p. pass_prefix ctx = Some p \<and> CHR 0x5C \<notin> set p) \<Longrightarrow>
   template_error env ctx = None"
  by (auto simp: template_error_def expand_template_def)

lemma resolve_conditional_options_Inl:
  "resolve_conditional_options env option1 option2 ctx = Inl e \<Longrightarrow>
   template_error env ctx = Some e"
  by (auto simp: resolve_conditional_options_def Let_def then_do_def
      replace_placeholders_in_string_Inl split: if_splits sum.splits)

lemma replace_conditional_match_Inl:
  "replace_conditional_match env ctx m = Inl e \<Longrightarrow> template_error env ctx = Some e"
  by (auto simp: replace_conditional_match_def resolve_conditional_options_Inl
      split: list.splits)

lemma conditional_sub_Inl:
  "(\<And>m e. repl m = Inl e \<Longrightarrow> Q e) \<Longrightarrow> conditional_sub repl s = Inl e \<Longrightarrow> Q e"
proof (induction repl s arbitrary: e rule: conditional_sub.induct)
  case (1 repl s)
  from "1.prems"(2) show ?case
    by (subst (asm) conditional_sub.simps)
       (auto split: if_splits option.splits sum.splits
          intro: "1.prems"(1) "1.IH"(1) "1.IH"(2))
qed

lemma resolve_conditional_placeholder_Inl:
  "resolve_conditional_placeholder env s ctx = Inl e \<Longrightarrow> template_error env ctx = Some e"
  unfolding resolve_conditional_placeholder_def
  by (erule conditional_sub_Inl [rotated]) (rule replace_conditional_match_Inl)

lemma replace_placeholders_shape:
  fixes d :: "'s document" and xs :: "'s document list"
    and items :: "(string \<times> 's document) list"
  shows "(case replace_placeholders env d ctx of
      Inl e \<Rightarrow> template_error env ctx = Some e
    | Inr d' \<Rightarrow> same_shape d d')"
    and "(case replace_placeholders_list env xs ctx of
      Inl e \<Rightarrow> template_error env ctx = Some e
    | Inr xs' \<Rightarrow> same_shape_list xs xs')"
    and "(case replace_placeholders_items env items ctx of
      Inl e \<Rightarrow> template_error env ctx = Some e
    | Inr items' \<Rightarrow> same_shape_items items items')"
proof (induction env d ctx and env xs ctx and env items ctx
       rule: replace_placeholders_replace_placeholders_list_replace_placeholders_items.induct)
  case (3 env s replacements)
  show ?case
    by (auto simp: resolve_conditional_placeholder_Inl replace_placeholders_in_string_Inl
        split: sum.splits)
qed (auto split: sum.splits)

subsection \<open>Simple tokens\<close>












subsection \<open>Documents\<close>

text \<open>
  C5. \<^verbatim>\<open>replace_placeholders\<close> preserves the structure of the document: whenever it
  returns, the result has the same keys in the same order, sequences of the same length
  and order, and equal non-string scalars; only string leaves may differ. It raises only
  when the library rejects the replacement template of the cleanup pass, and so returns
  for every context whose usable prefix, if any, contains no backslash.
\<close>

theorem replace_placeholders_structure:
  fixes d :: "'s document"
  shows "(case replace_placeholders env d ctx of
            Inl e \<Rightarrow> template_error env ctx = Some e
          | Inr d' \<Rightarrow> same_shape d d')
       \<and> (pass_prefix ctx = None \<or> (\<exists>p. pass_prefix ctx = Some p \<and> CHR 0x5C \<notin> set p)
          \<longrightarrow> (\<exists>d'. replace_placeholders env d ctx = Inr d' \<and> same_shape d d'))"
proof (intro conjI impI)
  show shape: "(case replace_placeholders env d ctx of
            Inl e \<Rightarrow> template_error env ctx = Some e
          | Inr d' \<Rightarrow> same_shape d d')"
    by (rule replace_placeholders_shape)
  assume "pass_prefix ctx = None \<or> (\<exists>p. pass_prefix ctx = Some p \<and> CHR 0x5C \<notin> set p)"
  then have "template_error env ctx = None"
    by (rule template_error_no_backslash)
  with shape show "\<exists>d'. replace_placeholders env d ctx = Inr d' \<and> same_shape d d'"
    by (cases "replace_placeholders env d ctx") auto
qed

theorem replace_placeholders_structure_witness:
  "replace_placeholders offline_env example_document ctx_both =
     Inr (Object [(''LambdaFunctions'',
              Sequence [Object [(''name'', Str ''myorg-F''), (''timeout'', Scalar 30)],
                        Object [(''name'', Str ''myorg-G'')]]),
             (''version'', Scalar 2)])
   \<and> (\<exists>d'. replace_placeholders offline_env example_document ctx_both = Inr d'
          \<and> same_shape example_document d')"
proof -
  have p: "pass_prefix ctx_both = None
           \<or> (\<exists>p. pass_prefix ctx_both = Some p \<and> CHR 0x5C \<notin> set p)"
  proof -
    have "pass_prefix ctx_both = Some ''myorg''" by code_simp
    then show ?thesis by simp
  qed
  have v: "replace_placeholders offline_env example_document ctx_both =
     Inr (Object [(''LambdaFunctions'',
              Sequence [Object [(''name'', Str ''myorg-F''), (''timeout'', Scalar 30)],
                        Object [(''name'', Str ''myorg-G'')]]),
             (''version'', Scalar 2)])"
    by code_simp
  from replace_placeholders_structure
    [where env = offline_env and d = example_document and ctx = ctx_both,
     THEN conjunct2, rule_format, OF p] v
  show ?thesis by simp
qed

subsection \<open>Dependence on the outside world\<close>









end
